theory Spec2Isabelle
  imports Complex_Main "HOL-Library.Word"
begin

section \<open>JavaScript values\<close>

text \<open>
  A JavaScript string is a sequence of UTF-16 code units; \<open>length\<close> counts code units,
  so a character outside the basic plane counts twice.  String literals of the source
  that are plain ASCII are written with \<open>ascii\<close>.
\<close>

type_synonym jsstring = "16 word list"

definition ascii :: "string \<Rightarrow> jsstring" where
  "ascii s = map of_char s"

text \<open>
  The values that JSON text parses to, and \<open>undefined\<close>.  An object is the list of its
  own properties, each key once.  A number is the value of the parsed double.
\<close>

datatype jsval =
    JUndefined
  | JNull
  | JBool bool
  | JNumber rat
  | JString jsstring
  | JArray "jsval list"
  | JObject "(jsstring \<times> jsval) list"

datatype js_error = TypeError

text \<open>The test that \<open>!v\<close> negates: \<open>undefined\<close>, \<open>null\<close>, \<open>false\<close>, zero and the
  empty string are falsy, everything else is truthy.\<close>

fun truthy :: "jsval \<Rightarrow> bool" where
  "truthy JUndefined = False"
| "truthy JNull = False"
| "truthy (JBool b) = b"
| "truthy (JNumber q) = (q \<noteq> 0)"
| "truthy (JString s) = (s \<noteq> [])"
| "truthy (JArray xs) = True"
| "truthy (JObject ps) = True"

text \<open>Reading an own property of an object: a missing key reads as \<open>undefined\<close>.\<close>

definition own_prop :: "(jsstring \<times> jsval) list \<Rightarrow> jsstring \<Rightarrow> jsval" where
  "own_prop ps k = (case map_of ps k of None \<Rightarrow> JUndefined | Some v \<Rightarrow> v)"

text \<open>
  \<open>v.k\<close> for a key \<open>k\<close> that no built-in prototype defines (the source reads
  \<open>choices\<close>, \<open>message\<close> and \<open>content\<close>): a \<open>TypeError\<close> on \<open>undefined\<close> and
  \<open>null\<close>, the own property on an object, \<open>undefined\<close> on every other value.
\<close>

fun get_member :: "jsstring \<Rightarrow> jsval \<Rightarrow> js_error + jsval" where
  "get_member k JUndefined = Inl TypeError"
| "get_member k JNull = Inl TypeError"
| "get_member k (JObject ps) = Inr (own_prop ps k)"
| "get_member k v = Inr JUndefined"

text \<open>
  \<open>v[0]\<close>: the first element of an array, the first code unit of a string (as a
  string of length one), the property named \<open>0\<close> of an object; \<open>undefined\<close> where
  there is none, a \<open>TypeError\<close> on \<open>undefined\<close> and \<open>null\<close>.
\<close>

fun index0 :: "jsval \<Rightarrow> js_error + jsval" where
  "index0 JUndefined = Inl TypeError"
| "index0 JNull = Inl TypeError"
| "index0 (JArray xs) = Inr (case xs of [] \<Rightarrow> JUndefined | x # _ \<Rightarrow> x)"
| "index0 (JString s) = Inr (case s of [] \<Rightarrow> JUndefined | c # _ \<Rightarrow> JString [c])"
| "index0 (JObject ps) = Inr (own_prop ps (ascii ''0''))"
| "index0 v = Inr JUndefined"

section \<open>Chat relay: \<open>POST /api/chat\<close>\<close>

record http_response =
  status :: nat
  body :: jsval

text \<open>The three arguments of \<open>axios.post\<close>: the URL, the data and the headers of the
  configuration.\<close>

record http_request =
  url :: jsstring
  data :: jsval
  headers :: "(jsstring \<times> jsstring) list"

text \<open>What the rejection of the call carries: the message and, when the provider
  answered, the status and body of its answer.\<close>

record axios_error =
  err_message :: jsstring
  err_status :: "nat option"
  err_data :: "jsval option"

text \<open>
  Awaiting \<open>axios.post\<close> either yields a response, of which the handler reads
  \<open>data\<close> only, or throws: on a network error and on a status outside 2xx.
\<close>

datatype axios_outcome = Resolved jsval | Rejected axios_error

text \<open>\<open>response.data.choices[0].message.content\<close>, where \<open>d\<close> is \<open>response.data\<close>.
  The first access that throws ends the chain.\<close>

definition first_choice_content :: "jsval \<Rightarrow> js_error + jsval" where
  "first_choice_content d =
     (case get_member (ascii ''choices'') d of
        Inl e \<Rightarrow> Inl e
      | Inr choices \<Rightarrow>
          (case index0 choices of
             Inl e \<Rightarrow> Inl e
           | Inr choice \<Rightarrow>
               (case get_member (ascii ''message'') choice of
                  Inl e \<Rightarrow> Inl e
                | Inr msg \<Rightarrow> get_member (ascii ''content'') msg)))"

text \<open>\<open>res.status(c).json(v)\<close>; \<open>res.json(v)\<close> alone answers with status 200.  The
  body is the value handed to \<open>json\<close>; a property whose value is \<open>undefined\<close> is left
  out when the value is written as JSON text.\<close>

definition missing_fields :: http_response where
  "missing_fields =
     \<lparr>status = 400, body = JObject [(ascii ''error'', JString (ascii ''Missing required fields''))]\<rparr>"

definition went_wrong :: http_response where
  "went_wrong =
     \<lparr>status = 500, body = JObject [(ascii ''error'', JString (ascii ''Something went wrong''))]\<rparr>"

definition success :: "jsval \<Rightarrow> http_response" where
  "success waifuResponse = \<lparr>status = 200, body = JObject [(ascii ''response'', waifuResponse)]\<rparr>"

definition completion_request :: "jsstring \<Rightarrow> jsval \<Rightarrow> jsval \<Rightarrow> http_request" where
  "completion_request openAiKey prompt message =
     \<lparr>url = ascii ''https://api.openai.com/v1/chat/completions'',
      data = JObject
        [(ascii ''model'', JString (ascii ''gpt-3.5-turbo'')),
         (ascii ''messages'', JArray
            [JObject [(ascii ''role'', JString (ascii ''system'')), (ascii ''content'', prompt)],
             JObject [(ascii ''role'', JString (ascii ''user'')), (ascii ''content'', message)]])],
      headers =
        [(ascii ''Content-Type'', ascii ''application/json''),
         (ascii ''Authorization'', ascii ''Bearer '' @ openAiKey)]\<rparr>"

text \<open>What one run of the handler does: the upstream calls it made, in order, and the
  response it sent.\<close>

record handled =
  calls :: "http_request list"
  response :: http_response

text \<open>
  The handler of \<open>POST /api/chat\<close>.  \<open>req_body\<close> is the parsed JSON object of the
  request, \<open>upstream\<close> is the completion provider as \<open>axios.post\<close> shows it: the outcome
  of awaiting the call for the request sent.  Console output is not part of the model.
\<close>

definition chat_handler ::
  "jsstring \<Rightarrow> (http_request \<Rightarrow> axios_outcome) \<Rightarrow> (jsstring \<times> jsval) list \<Rightarrow> handled" where
  "chat_handler openAiKey upstream req_body =
     (let waifu = own_prop req_body (ascii ''waifu'');
          message = own_prop req_body (ascii ''message'');
          prompt = own_prop req_body (ascii ''prompt'')
      in if \<not> truthy waifu \<or> \<not> truthy message \<or> \<not> truthy prompt
         then \<lparr>calls = [], response = missing_fields\<rparr>
         else
           (let rq = completion_request openAiKey prompt message
            in case upstream rq of
                 Rejected err \<Rightarrow> \<lparr>calls = [rq], response = went_wrong\<rparr>
               | Resolved d \<Rightarrow>
                   (case first_choice_content d of
                      Inl err \<Rightarrow> \<lparr>calls = [rq], response = went_wrong\<rparr>
                    | Inr waifuResponse \<Rightarrow> \<lparr>calls = [rq], response = success waifuResponse\<rparr>)))"

section \<open>Scheduled poster: \<open>postToX\<close>\<close>

text \<open>The message pool.  The typographic apostrophe and the dash are one code unit each,
  every emoji is a surrogate pair.\<close>

definition cryptoFlirtMessages :: "jsstring list" where
  "cryptoFlirtMessages =
     [ascii ''Ohh, is that your token, daddy? I love it as much as I love you! ''
        @ [0xD83D, 0xDC8B],
      ascii ''Hey cutie, your crypto wallet'' @ [0x2019] @ ascii ''s looking hot'' @ [0x2014]
        @ ascii ''wanna trade with me? '' @ [0xD83D, 0xDE18],
      ascii ''Mmm, your blockchain moves are turning me on, daddy! Let'' @ [0x2019]
        @ ascii ''s stack those coins! '' @ [0xD83D, 0xDCB8],
      ascii ''Is that a new token in your pocket, or are you just happy to see me? ''
        @ [0xD83D, 0xDE09],
      ascii ''I'' @ [0x2019] @ ascii ''m hodling my heart for you and your crypto, daddy! ''
        @ [0xD83D, 0xDC95]]"

text \<open>
  \<open>arr[Math.floor(r * arr.length)]\<close>, where \<open>r\<close> is the value of \<open>Math.random()\<close>,
  taken as an exact number; an index outside the array reads \<open>undefined\<close>, here \<open>None\<close>.
  The product is exact here, where JavaScript rounds it to a double: for an \<open>r\<close> whose
  product lies just below a whole number the code can pick the next index.  Nothing
  below depends on which element is picked, only on its being an element of the array or
  \<open>undefined\<close>.
\<close>

definition random_element :: "'a list \<Rightarrow> rat \<Rightarrow> 'a option" where
  "random_element arr r =
     (let i = \<lfloor>r * of_nat (length arr)\<rfloor>
      in if 0 \<le> i \<and> i < int (length arr) then Some (arr ! nat i) else None)"

definition getRandomMessage :: "rat \<Rightarrow> jsstring option" where
  "getRandomMessage r = random_element cryptoFlirtMessages r"

text \<open>\<open>s.replace(a, b)\<close> for one code unit \<open>a\<close> and one code unit \<open>b\<close>: the first
  occurrence is replaced.\<close>

fun replace_first :: "'a \<Rightarrow> 'a \<Rightarrow> 'a list \<Rightarrow> 'a list" where
  "replace_first a b [] = []"
| "replace_first a b (x # xs) = (if x = a then b # xs else x # replace_first a b xs)"

text \<open>\<open>iso_str.slice(0, 19).replace('T', ' ')\<close>, where \<open>iso_str\<close> is the value of
  \<open>new Date().toISOString()\<close>.\<close>

definition timestamp :: "jsstring \<Rightarrow> jsstring" where
  "timestamp iso_str = replace_first (of_char CHR ''T'') (of_char CHR '' '') (take 19 iso_str)"

text \<open>The template literal that builds the tweet; \<open>undefined\<close> is spliced in as the
  word \<open>undefined\<close>.\<close>

definition compose_tweet :: "jsstring option \<Rightarrow> jsstring \<Rightarrow> jsstring" where
  "compose_tweet picked iso_str =
     (case picked of None \<Rightarrow> ascii ''undefined'' | Some m \<Rightarrow> m) @ ascii '' | '' @ timestamp iso_str"

datatype tweet_outcome = TweetOk | TweetFailed

datatype callback = PostToX

text \<open>What a tick does, in order: a call of the publish API with the text, a console
  line (its timestamp left out), a timer set with a callback and a delay in
  milliseconds.\<close>

datatype effect =
    Tweet jsstring
  | LogPosted jsstring
  | LogTooLong jsstring
  | LogError
  | SetTimeout callback nat

text \<open>The body of \<open>postToX\<close> once the message is picked.  \<open>outcome\<close> is how the
  awaited publish call settles, when it is made.\<close>

definition post_picked :: "jsstring option \<Rightarrow> jsstring \<Rightarrow> tweet_outcome \<Rightarrow> effect list" where
  "post_picked picked iso_str outcome =
     (let tweet = compose_tweet picked iso_str
      in (if length tweet \<le> 280
          then (case outcome of
                  TweetOk \<Rightarrow> [Tweet tweet, LogPosted tweet]
                | TweetFailed \<Rightarrow> [Tweet tweet, LogError])
          else [LogTooLong tweet])
         @ [SetTimeout PostToX 3600000])"

text \<open>What a tick reads from outside: the random number, the clock and the outcome of the
  publish call.\<close>

record tick_env =
  random :: rat
  iso_now :: jsstring
  tweet_result :: tweet_outcome

definition postToX :: "tick_env \<Rightarrow> effect list" where
  "postToX env = post_picked (getRandomMessage (random env)) (iso_now env) (tweet_result env)"

text \<open>The publish calls among the effects of a tick.\<close>

fun tweets :: "effect list \<Rightarrow> jsstring list" where
  "tweets [] = []"
| "tweets (Tweet t # es) = t # tweets es"
| "tweets (e # es) = tweets es"

text \<open>The timers set among the effects of a tick.\<close>

fun timers :: "effect list \<Rightarrow> (callback \<times> nat) list" where
  "timers [] = []"
| "timers (SetTimeout f ms # es) = (f, ms) # timers es"
| "timers (e # es) = timers es"

text \<open>
  The ticks that run, one environment for each: the first tick runs at start, a later one
  only when the tick before it has set a timer for \<open>postToX\<close>.
\<close>

fun poster_run :: "tick_env list \<Rightarrow> effect list list" where
  "poster_run [] = []"
| "poster_run (env # envs) =
     (let effects = postToX env
      in effects # (if PostToX \<in> fst ` set (timers effects) then poster_run envs else []))"

section \<open>Health check behind the middleware\<close>

text \<open>
  A middleware installed with \<open>app.use\<close> either answers a request itself, \<open>Some\<close>, or
  hands it on, \<open>None\<close>.  The source installs three before any route, in this order:
  \<open>cors\<close>, \<open>express.json\<close> and the rate limiter.
\<close>

definition limiter_windowMs :: nat where
  "limiter_windowMs = 60 * 1000"

definition limiter_max :: nat where
  "limiter_max = 10"

definition too_many_requests :: http_response where
  "too_many_requests =
     \<lparr>status = 429, body = JString (ascii ''Too many requests, please try again later.'')\<rparr>"

text \<open>
  Modelled from the spec: the rate-limiting collaborator, the package
  \<open>express-rate-limit\<close>, whose code is not under the sources.  It caps each client address
  to a fixed request count per fixed time window across all routes and returns its own
  error response when the count is exceeded.  The count \<open>max\<close> and the window \<open>windowMs\<close>
  are the options the source passes; status 429 and the message are the defaults of the
  package.  \<open>counted\<close> is the number of requests of the same address that the limiter has
  counted before in the current window: the requests that reached it, on any route.  A
  request that \<open>cors\<close> or \<open>express.json\<close> answers is never seen by the limiter and is
  not counted.
\<close>

definition limiter :: "nat \<Rightarrow> http_response option" where
  "limiter counted = (if counted + 1 > limiter_max then Some too_many_requests else None)"

definition health_handler :: http_response where
  "health_handler = \<lparr>status = 200, body = JObject [(ascii ''status'', JString (ascii ''OK''))]\<rparr>"

text \<open>
  \<open>GET /health\<close> as the application answers it: the first middleware that answers ends
  the request, and the route runs when all three hand it on.  \<open>cors_answer\<close> and
  \<open>json_answer\<close> are what the first two do with the request; \<open>express.json\<close> answers a
  request whose body it cannot parse.
\<close>

definition get_health ::
  "http_response option \<Rightarrow> http_response option \<Rightarrow> nat \<Rightarrow> http_response" where
  "get_health cors_answer json_answer counted =
     (case cors_answer of
        Some r \<Rightarrow> r
      | None \<Rightarrow>
          (case json_answer of
             Some r \<Rightarrow> r
           | None \<Rightarrow> (case limiter counted of Some r \<Rightarrow> r | None \<Rightarrow> health_handler)))"

section \<open>Start of the process\<close>

text \<open>The top-level statements of the module as events, in the order they run.
  \<open>RoutePostChat k\<close> installs the chat handler with the credential \<open>k\<close>.\<close>

datatype startup_event =
    UseCors
  | UseJson
  | UseLimiter
  | RouteGetHealth
  | RouteGetRoot
  | LogKeyMissing
  | Exit int
  | RoutePostChat jsstring
  | NewTwitterClient
  | RunPostToX
  | OnUncaughtException
  | OnUnhandledRejection
  | LogStarting
  | Listen jsval
  | SetInterval nat
  | OnSigterm

text \<open>\<open>process.env.PORT || 3000\<close>: an environment variable is a string or absent.\<close>

definition listen_port :: "(jsstring \<rightharpoonup> jsstring) \<Rightarrow> jsval" where
  "listen_port env =
     (case env (ascii ''PORT'') of
        None \<Rightarrow> JNumber 3000
      | Some p \<Rightarrow> if p = [] then JNumber 3000 else JString p)"

text \<open>\<open>process.exit(1)\<close> ends the run: nothing after it is executed.  An absent and an
  empty \<open>OPENAI_API_KEY\<close> are both falsy.  The constructor of the Twitter client, code of
  the package \<open>twitter-api-v2\<close>, is taken to return; where it throws (it is given
  credentials that may be absent) the run ends at that statement, and the trace of the
  run is the part of this one before \<open>NewTwitterClient\<close>.\<close>

definition startup :: "(jsstring \<rightharpoonup> jsstring) \<Rightarrow> startup_event list" where
  "startup env =
     [UseCors, UseJson, UseLimiter, RouteGetHealth, RouteGetRoot] @
     (case env (ascii ''OPENAI_API_KEY'') of
        None \<Rightarrow> [LogKeyMissing, Exit 1]
      | Some openAiKey \<Rightarrow>
          if openAiKey = [] then [LogKeyMissing, Exit 1]
          else [RoutePostChat openAiKey, NewTwitterClient, RunPostToX, OnUncaughtException,
                OnUnhandledRejection, LogStarting, Listen (listen_port env), SetInterval 5000,
                OnSigterm])"

section \<open>Example inputs\<close>

text \<open>The request of the specification's example, and the same request from which
  \<open>waifu\<close> is missing.\<close>

definition aiko_request :: "(jsstring \<times> jsval) list" where
  "aiko_request =
     [(ascii ''waifu'', JString (ascii ''Aiko'')),
      (ascii ''message'', JString (ascii ''hi'')),
      (ascii ''prompt'', JString (ascii ''You are Aiko''))]"

definition rem_request :: "(jsstring \<times> jsval) list" where
  "rem_request =
     [(ascii ''waifu'', JString (ascii ''Rem'')),
      (ascii ''message'', JString (ascii ''hi'')),
      (ascii ''prompt'', JString (ascii ''You are Aiko''))]"

definition no_waifu_request :: "(jsstring \<times> jsval) list" where
  "no_waifu_request =
     [(ascii ''message'', JString (ascii ''hi'')),
      (ascii ''prompt'', JString (ascii ''x''))]"

text \<open>A completion whose first choice says \<open>Hello!\<close>, and one whose first choice has a
  message without \<open>content\<close>.\<close>

definition hello_completion :: jsval where
  "hello_completion =
     JObject [(ascii ''choices'', JArray
       [JObject [(ascii ''message'', JObject
          [(ascii ''role'', JString (ascii ''assistant'')),
           (ascii ''content'', JString (ascii ''Hello!''))])]])]"

definition contentless_completion :: jsval where
  "contentless_completion =
     JObject [(ascii ''choices'', JArray
       [JObject [(ascii ''message'', JObject
          [(ascii ''role'', JString (ascii ''assistant''))])]])]"

text \<open>A call that fails before any answer, and one that the provider refuses.\<close>

definition network_error :: axios_error where
  "network_error = \<lparr>err_message = ascii ''Network Error'', err_status = None, err_data = None\<rparr>"

definition unauthorized_error :: axios_error where
  "unauthorized_error =
     \<lparr>err_message = ascii ''Request failed with status code 401'',
      err_status = Some 401,
      err_data = Some (JObject [(ascii ''error'', JObject
        [(ascii ''message'', JString (ascii ''Incorrect API key provided''))])])\<rparr>"

definition test_key :: jsstring where
  "test_key = ascii ''sk-test''"

definition other_key :: jsstring where
  "other_key = ascii ''sk-other''"

text \<open>A clock reading, a tick that picks the first message and publishes it, and a text
  too long to publish.\<close>

definition clock_reading :: jsstring where
  "clock_reading = ascii ''2026-11-02T03:53:07.123Z''"

definition first_tick :: tick_env where
  "first_tick = \<lparr>random = 0, iso_now = clock_reading, tweet_result = TweetOk\<rparr>"

definition failing_tick :: tick_env where
  "failing_tick = \<lparr>random = 0, iso_now = clock_reading, tweet_result = TweetFailed\<rparr>"

definition long_message :: jsstring where
  "long_message = replicate 300 (of_char CHR ''a'')"

text \<open>The answer to a request whose JSON body does not parse.\<close>

definition bad_json_answer :: http_response where
  "bad_json_answer = \<lparr>status = 400, body = JString (ascii ''Bad Request'')\<rparr>"

text \<open>An environment without \<open>OPENAI_API_KEY\<close> and one with it.\<close>

definition bare_env :: "jsstring \<rightharpoonup> jsstring" where
  "bare_env = Map.empty"

definition keyed_env :: "jsstring \<rightharpoonup> jsstring" where
  "keyed_env = [ascii ''OPENAI_API_KEY'' \<mapsto> test_key]"

section \<open>Facts about strings and property access\<close>

lemma of_char_word16_inj: "(of_char c :: 16 word) = of_char d \<Longrightarrow> c = d"
proof -
  assume eq: "(of_char c :: 16 word) = of_char d"
  have lt: "(of_char x :: nat) < 2 ^ 16" for x
  proof -
    have "(of_char x :: nat) mod 256 = of_char x" by simp
    then have "(of_char x :: nat) < 256"
      by (metis mod_less_divisor zero_less_numeral)
    moreover have "(256::nat) < 2 ^ 16" by simp
    ultimately show ?thesis by (rule less_trans)
  qed
  have "unat (of_char x :: 16 word) = of_char x" for x
  proof -
    have "(of_char x :: 16 word) = of_nat (of_char x)"
      by (simp add: of_nat_of_char)
    then have "unat (of_char x :: 16 word) = (of_char x :: nat) mod 2 ^ 16"
      by (simp add: unat_of_nat)
    then show ?thesis using lt [of x] by simp
  qed
  then have "(of_char c :: nat) = of_char d"
    using eq by metis
  then show "c = d" by simp
qed

lemma ascii_eq_iff [simp]: "ascii s = ascii t \<longleftrightarrow> s = t"
proof (induction s arbitrary: t)
  case Nil
  then show ?case by (cases t) (simp_all add: ascii_def)
next
  case (Cons c s)
  then show ?case
    by (cases t) (auto simp: ascii_def dest: of_char_word16_inj)
qed

lemma ascii_Nil [simp]: "ascii s = [] \<longleftrightarrow> s = []"
  by (simp add: ascii_def)

lemma length_ascii [simp]: "length (ascii s) = length s"
  by (simp add: ascii_def)

lemma ascii_append: "ascii s @ ascii t = ascii (s @ t)"
  by (simp add: ascii_def)

lemma js_error_eq [simp]: "(e::js_error) = e'"
  by (cases e; cases e') simp

lemma get_member_throws_iff: "get_member k v = Inl e \<longleftrightarrow> v = JUndefined \<or> v = JNull"
  by (cases v; cases e) simp_all

lemma index0_throws_iff: "index0 v = Inl e \<longleftrightarrow> v = JUndefined \<or> v = JNull"
  by (cases v; cases e) simp_all

text \<open>Reading the content throws exactly when the response, its \<open>choices\<close>, the first
  choice or its \<open>message\<close> is \<open>undefined\<close> or \<open>null\<close>.\<close>

lemma first_choice_content_throws_iff:
  "first_choice_content d = Inl e \<longleftrightarrow>
     (d = JUndefined \<or> d = JNull
      \<or> (\<exists>v. get_member (ascii ''choices'') d = Inr v \<and> (v = JUndefined \<or> v = JNull))
      \<or> (\<exists>v w. get_member (ascii ''choices'') d = Inr v \<and> index0 v = Inr w
            \<and> (w = JUndefined \<or> w = JNull))
      \<or> (\<exists>v w x. get_member (ascii ''choices'') d = Inr v \<and> index0 v = Inr w
            \<and> get_member (ascii ''message'') w = Inr x \<and> (x = JUndefined \<or> x = JNull)))"
  unfolding first_choice_content_def
  by (auto simp: get_member_throws_iff index0_throws_iff split: sum.splits)

lemma aiko_fields [simp]:
  "own_prop aiko_request (ascii ''waifu'') = JString (ascii ''Aiko'')"
  "own_prop aiko_request (ascii ''message'') = JString (ascii ''hi'')"
  "own_prop aiko_request (ascii ''prompt'') = JString (ascii ''You are Aiko'')"
  by (simp_all add: aiko_request_def own_prop_def)

lemma rem_fields [simp]:
  "own_prop rem_request (ascii ''waifu'') = JString (ascii ''Rem'')"
  "own_prop rem_request (ascii ''message'') = JString (ascii ''hi'')"
  "own_prop rem_request (ascii ''prompt'') = JString (ascii ''You are Aiko'')"
  by (simp_all add: rem_request_def own_prop_def)

lemma hello_content [simp]:
  "first_choice_content hello_completion = Inr (JString (ascii ''Hello!''))"
  by (simp add: first_choice_content_def hello_completion_def own_prop_def)

lemma contentless_content [simp]:
  "first_choice_content contentless_completion = Inr JUndefined"
  by (simp add: first_choice_content_def contentless_completion_def own_prop_def)

section \<open>The chat relay\<close>

text \<open>The two branches of the handler.\<close>

lemma chat_invalid:
  assumes "\<not> truthy (own_prop req_body (ascii ''waifu''))
           \<or> \<not> truthy (own_prop req_body (ascii ''message''))
           \<or> \<not> truthy (own_prop req_body (ascii ''prompt''))"
  shows "chat_handler key upstream req_body = \<lparr>calls = [], response = missing_fields\<rparr>"
  using assms unfolding chat_handler_def Let_def by (simp only: if_True)

lemma chat_valid:
  assumes "truthy (own_prop req_body (ascii ''waifu''))"
    and "truthy (own_prop req_body (ascii ''message''))"
    and "truthy (own_prop req_body (ascii ''prompt''))"
  shows "chat_handler key upstream req_body =
     (let rq = completion_request key (own_prop req_body (ascii ''prompt''))
                 (own_prop req_body (ascii ''message''))
      in \<lparr>calls = [rq],
          response = (case upstream rq of
                        Rejected err \<Rightarrow> went_wrong
                      | Resolved d \<Rightarrow> (case first_choice_content d of
                                         Inl e \<Rightarrow> went_wrong
                                       | Inr c \<Rightarrow> success c))\<rparr>)"
  using assms unfolding chat_handler_def Let_def
  by (simp split: axios_outcome.split sum.split)

text \<open>
  C2.  A request in which \<open>waifu\<close>, \<open>message\<close> or \<open>prompt\<close> is missing or is the empty
  string is answered with status 400 and the body \<open>{ error: "Missing required fields" }\<close>,
  and no upstream call is made.
\<close>

theorem chat_missing_field_400:
  assumes "k \<in> {ascii ''waifu'', ascii ''message'', ascii ''prompt''}"
    and "map_of req_body k = None \<or> map_of req_body k = Some (JString [])"
  shows "calls (chat_handler key upstream req_body) = []
         \<and> response (chat_handler key upstream req_body) =
             \<lparr>status = 400,
              body = JObject [(ascii ''error'', JString (ascii ''Missing required fields''))]\<rparr>"
proof -
  from assms(2) have "\<not> truthy (own_prop req_body k)"
    by (auto simp: own_prop_def)
  with assms(1) have "chat_handler key upstream req_body = \<lparr>calls = [], response = missing_fields\<rparr>"
    by (intro chat_invalid) auto
  then show ?thesis by (simp add: missing_fields_def)
qed

theorem chat_missing_field_400_witness:
  "map_of no_waifu_request (ascii ''waifu'') = None
   \<and> calls (chat_handler test_key (\<lambda>rq. Resolved hello_completion) no_waifu_request) = []
   \<and> response (chat_handler test_key (\<lambda>rq. Resolved hello_completion) no_waifu_request) =
       \<lparr>status = 400,
        body = JObject [(ascii ''error'', JString (ascii ''Missing required fields''))]\<rparr>"
proof -
  have missing: "map_of no_waifu_request (ascii ''waifu'') = None"
    by (simp add: no_waifu_request_def)
  then show ?thesis
    using chat_missing_field_400 [of "ascii ''waifu''" no_waifu_request test_key
        "\<lambda>rq. Resolved hello_completion"]
    by simp
qed

text \<open>
  C1, as the code has it.  When the three fields are truthy (a string is truthy when it is
  not empty) the relay makes exactly one upstream call.  It answers 500 with the fixed
  body when the call is rejected, whatever the error, and when reading
  \<open>data.choices[0].message.content\<close> throws; otherwise it answers 200 with the value read
  there as \<open>response\<close>, also when that value is \<open>undefined\<close>.
\<close>

theorem chat_relay_outcome:
  assumes "truthy (own_prop req_body (ascii ''waifu''))"
    and "truthy (own_prop req_body (ascii ''message''))"
    and "truthy (own_prop req_body (ascii ''prompt''))"
  shows "length (calls (chat_handler key upstream req_body)) = 1
         \<and> response (chat_handler key upstream req_body) =
             (case upstream (hd (calls (chat_handler key upstream req_body))) of
                Rejected err \<Rightarrow>
                  \<lparr>status = 500,
                   body = JObject [(ascii ''error'', JString (ascii ''Something went wrong''))]\<rparr>
              | Resolved d \<Rightarrow>
                  (case first_choice_content d of
                     Inl e \<Rightarrow>
                       \<lparr>status = 500,
                        body = JObject [(ascii ''error'', JString (ascii ''Something went wrong''))]\<rparr>
                   | Inr c \<Rightarrow> \<lparr>status = 200, body = JObject [(ascii ''response'', c)]\<rparr>))"
  using chat_valid [OF assms, of key upstream]
  by (simp add: Let_def went_wrong_def success_def split: axios_outcome.split sum.split)

theorem chat_relay_outcome_witness:
  "truthy (own_prop aiko_request (ascii ''waifu''))
   \<and> truthy (own_prop aiko_request (ascii ''message''))
   \<and> truthy (own_prop aiko_request (ascii ''prompt''))
   \<and> length (calls (chat_handler test_key (\<lambda>rq. Resolved hello_completion) aiko_request)) = 1
   \<and> response (chat_handler test_key (\<lambda>rq. Resolved hello_completion) aiko_request) =
       \<lparr>status = 200, body = JObject [(ascii ''response'', JString (ascii ''Hello!''))]\<rparr>
   \<and> response (chat_handler test_key (\<lambda>rq. Rejected network_error) aiko_request) =
       \<lparr>status = 500, body = JObject [(ascii ''error'', JString (ascii ''Something went wrong''))]\<rparr>
   \<and> response (chat_handler test_key (\<lambda>rq. Rejected unauthorized_error) aiko_request) =
       \<lparr>status = 500, body = JObject [(ascii ''error'', JString (ascii ''Something went wrong''))]\<rparr>
   \<and> response (chat_handler test_key (\<lambda>rq. Resolved (JObject [])) aiko_request) =
       \<lparr>status = 500, body = JObject [(ascii ''error'', JString (ascii ''Something went wrong''))]\<rparr>"
proof -
  have no_choices: "first_choice_content (JObject []) = Inl TypeError"
    by (simp add: first_choice_content_def own_prop_def)
  show ?thesis
    using chat_relay_outcome [of aiko_request test_key "\<lambda>rq. Resolved hello_completion"]
      chat_relay_outcome [of aiko_request test_key "\<lambda>rq. Rejected network_error"]
      chat_relay_outcome [of aiko_request test_key "\<lambda>rq. Rejected unauthorized_error"]
      chat_relay_outcome [of aiko_request test_key "\<lambda>rq. Resolved (JObject [])"]
      no_choices
    by simp
qed

text \<open>
  The claim as stated fails on a response that is malformed in its last step only: the
  provider answers with a first choice whose message has no \<open>content\<close>.  Nothing throws,
  and the relay answers 200 with a \<open>response\<close> that is \<open>undefined\<close>, not 500.
\<close>

theorem chat_contentless_completion_counterexample:
  "response (chat_handler test_key (\<lambda>rq. Resolved contentless_completion) aiko_request) =
     \<lparr>status = 200, body = JObject [(ascii ''response'', JUndefined)]\<rparr>
   \<and> status (response (chat_handler test_key (\<lambda>rq. Resolved contentless_completion) aiko_request))
       \<noteq> 500"
  by (simp add: chat_valid Let_def success_def)

text \<open>
  C5.  For a valid request the one upstream request carries the fixed model identifier and
  two messages: first the system role with the caller's \<open>prompt\<close>, then the user role with
  the caller's \<open>message\<close>.
\<close>

theorem upstream_request_shape:
  assumes "truthy (own_prop req_body (ascii ''waifu''))"
    and "truthy (own_prop req_body (ascii ''message''))"
    and "truthy (own_prop req_body (ascii ''prompt''))"
  shows "map data (calls (chat_handler key upstream req_body)) =
           [JObject
              [(ascii ''model'', JString (ascii ''gpt-3.5-turbo'')),
               (ascii ''messages'', JArray
                  [JObject [(ascii ''role'', JString (ascii ''system'')),
                            (ascii ''content'', own_prop req_body (ascii ''prompt''))],
                   JObject [(ascii ''role'', JString (ascii ''user'')),
                            (ascii ''content'', own_prop req_body (ascii ''message''))]])]]"
  using chat_valid [OF assms, of key upstream]
  by (simp add: Let_def completion_request_def)

theorem upstream_request_shape_witness:
  "truthy (own_prop aiko_request (ascii ''waifu''))
   \<and> truthy (own_prop aiko_request (ascii ''message''))
   \<and> truthy (own_prop aiko_request (ascii ''prompt''))
   \<and> map data (calls (chat_handler test_key (\<lambda>rq. Resolved hello_completion) aiko_request)) =
       [JObject
          [(ascii ''model'', JString (ascii ''gpt-3.5-turbo'')),
           (ascii ''messages'', JArray
              [JObject [(ascii ''role'', JString (ascii ''system'')),
                        (ascii ''content'', JString (ascii ''You are Aiko''))],
               JObject [(ascii ''role'', JString (ascii ''user'')),
                        (ascii ''content'', JString (ascii ''hi''))]])]]"
  using upstream_request_shape [of aiko_request test_key "\<lambda>rq. Resolved hello_completion"]
  by simp

text \<open>
  C7.  Two requests that differ in \<open>waifu\<close> only, present in both, lead to the same
  upstream call and, with the same provider, to the same response.
\<close>

theorem waifu_not_used:
  assumes same: "\<forall>k. k \<noteq> ascii ''waifu'' \<longrightarrow> map_of body1 k = map_of body2 k"
    and w1: "truthy (own_prop body1 (ascii ''waifu''))"
    and w2: "truthy (own_prop body2 (ascii ''waifu''))"
  shows "chat_handler key upstream body1 = chat_handler key upstream body2"
proof -
  have m: "own_prop body1 (ascii ''message'') = own_prop body2 (ascii ''message'')"
    using same by (simp add: own_prop_def)
  have p: "own_prop body1 (ascii ''prompt'') = own_prop body2 (ascii ''prompt'')"
    using same by (simp add: own_prop_def)
  show ?thesis
    unfolding chat_handler_def Let_def m p using w1 w2 by simp
qed

theorem waifu_not_used_witness:
  "own_prop aiko_request (ascii ''waifu'') \<noteq> own_prop rem_request (ascii ''waifu'')
   \<and> truthy (own_prop aiko_request (ascii ''waifu''))
   \<and> truthy (own_prop rem_request (ascii ''waifu''))
   \<and> chat_handler test_key (\<lambda>rq. Resolved hello_completion) aiko_request =
       chat_handler test_key (\<lambda>rq. Resolved hello_completion) rem_request"
proof -
  have same: "\<forall>k. k \<noteq> ascii ''waifu'' \<longrightarrow> map_of aiko_request k = map_of rem_request k"
    by (simp add: aiko_request_def rem_request_def)
  show ?thesis
    using waifu_not_used [OF same, of test_key "\<lambda>rq. Resolved hello_completion"]
    by simp
qed

text \<open>
  C6.  The credential reaches nothing but the \<open>Authorization\<close> header of the request
  sent to the completion provider.  Every upstream call goes to the endpoint of the
  provider and carries two headers, \<open>Content-Type\<close> and \<open>Authorization\<close> with the
  credential as bearer token.  The rest is independent of the credential: run with two
  credentials on the same request, the handler sends the same URL, the same data and the
  same headers apart from \<open>Authorization\<close>, and, when the provider's answer depends on
  the URL and the data only, the same response.  The poster takes no credential of the
  completion provider at all.
\<close>

theorem credential_only_in_authorization:
  "(\<forall>rq \<in> set (calls (chat_handler key1 upstream1 req_body)).
      url rq = ascii ''https://api.openai.com/v1/chat/completions''
      \<and> headers rq =
          [(ascii ''Content-Type'', ascii ''application/json''),
           (ascii ''Authorization'', ascii ''Bearer '' @ key1)])
   \<and> map url (calls (chat_handler key1 upstream1 req_body)) =
       map url (calls (chat_handler key2 upstream2 req_body))
   \<and> map data (calls (chat_handler key1 upstream1 req_body)) =
       map data (calls (chat_handler key2 upstream2 req_body))
   \<and> map (\<lambda>rq. filter (\<lambda>h. fst h \<noteq> ascii ''Authorization'') (headers rq))
         (calls (chat_handler key1 upstream1 req_body)) =
       map (\<lambda>rq. filter (\<lambda>h. fst h \<noteq> ascii ''Authorization'') (headers rq))
         (calls (chat_handler key2 upstream2 req_body))
   \<and> response (chat_handler key1 (\<lambda>rq. provider (url rq) (data rq)) req_body) =
       response (chat_handler key2 (\<lambda>rq. provider (url rq) (data rq)) req_body)"
proof (cases "truthy (own_prop req_body (ascii ''waifu''))
              \<and> truthy (own_prop req_body (ascii ''message''))
              \<and> truthy (own_prop req_body (ascii ''prompt''))")
  case True
  then show ?thesis
    by (simp add: chat_valid Let_def completion_request_def)
next
  case False
  then have "chat_handler k u req_body = \<lparr>calls = [], response = missing_fields\<rparr>" for k u
    by (intro chat_invalid) auto
  then show ?thesis by simp
qed

theorem credential_only_in_authorization_witness:
  "map url (calls (chat_handler test_key (\<lambda>rq. Resolved hello_completion) aiko_request)) =
     [ascii ''https://api.openai.com/v1/chat/completions'']
   \<and> map headers (calls (chat_handler test_key (\<lambda>rq. Resolved hello_completion) aiko_request)) =
       [[(ascii ''Content-Type'', ascii ''application/json''),
         (ascii ''Authorization'', ascii ''Bearer sk-test'')]]
   \<and> map headers (calls (chat_handler test_key (\<lambda>rq. Resolved hello_completion) aiko_request)) \<noteq>
       map headers (calls (chat_handler other_key (\<lambda>rq. Resolved hello_completion) aiko_request))
   \<and> map url (calls (chat_handler test_key (\<lambda>rq. Resolved hello_completion) aiko_request)) =
       map url (calls (chat_handler other_key (\<lambda>rq. Resolved hello_completion) aiko_request))
   \<and> map data (calls (chat_handler test_key (\<lambda>rq. Resolved hello_completion) aiko_request)) =
       map data (calls (chat_handler other_key (\<lambda>rq. Resolved hello_completion) aiko_request))
   \<and> response (chat_handler test_key (\<lambda>rq. Resolved hello_completion) aiko_request) =
       response (chat_handler other_key (\<lambda>rq. Resolved hello_completion) aiko_request)"
proof -
  have one: "\<exists>rq. calls (chat_handler k (\<lambda>rq. Resolved hello_completion) aiko_request) = [rq]" for k
    by (simp add: chat_valid Let_def)
  then obtain rq where rq: "calls (chat_handler test_key (\<lambda>rq. Resolved hello_completion) aiko_request) = [rq]"
    by blast
  from one obtain rq' where rq': "calls (chat_handler other_key (\<lambda>rq. Resolved hello_completion) aiko_request) = [rq']"
    by blast
  note pinned = credential_only_in_authorization [of test_key "\<lambda>rq. Resolved hello_completion"
        aiko_request other_key "\<lambda>rq. Resolved hello_completion" "\<lambda>u d. Resolved hello_completion"]
  note pinned' = credential_only_in_authorization [of other_key "\<lambda>rq. Resolved hello_completion"
        aiko_request test_key "\<lambda>rq. Resolved hello_completion" "\<lambda>u d. Resolved hello_completion"]
  have h: "headers rq = [(ascii ''Content-Type'', ascii ''application/json''),
         (ascii ''Authorization'', ascii ''Bearer sk-test'')]"
    using pinned rq by (simp add: test_key_def ascii_append)
  have h': "headers rq' = [(ascii ''Content-Type'', ascii ''application/json''),
         (ascii ''Authorization'', ascii ''Bearer sk-other'')]"
    using pinned' rq' by (simp add: other_key_def ascii_append)
  have u: "url rq = ascii ''https://api.openai.com/v1/chat/completions''"
    using pinned rq by simp
  show ?thesis
    using pinned [THEN conjunct2] rq rq' h h' u by simp
qed

section \<open>The scheduled poster\<close>

lemma length_replace_first [simp]: "length (replace_first a b xs) = length xs"
  by (induction xs) simp_all

lemma length_timestamp: "length (timestamp iso_str) \<le> 19"
  by (simp add: timestamp_def)

lemma timestamp_clock_reading [simp]: "timestamp clock_reading = ascii ''2026-11-02 03:53:07''"
  by (simp add: timestamp_def clock_reading_def ascii_def)

lemma pool_lengths: "map length cryptoFlirtMessages = [67, 67, 80, 71, 55]"
  by (simp add: cryptoFlirtMessages_def)

lemma pool_bound:
  assumes "m \<in> set cryptoFlirtMessages"
  shows "length m \<le> 80"
proof -
  from assms have "length m \<in> set (map length cryptoFlirtMessages)" by simp
  then show ?thesis unfolding pool_lengths by auto
qed

lemma random_element_in:
  assumes "random_element arr r = Some x"
  shows "x \<in> set arr"
proof -
  define i where "i = \<lfloor>r * of_nat (length arr)\<rfloor>"
  from assms have range: "0 \<le> i" "i < int (length arr)" and x: "x = arr ! nat i"
    by (auto simp: random_element_def Let_def i_def split: if_splits)
  from range have "nat i < length arr" by linarith
  then show ?thesis unfolding x by (rule nth_mem)
qed

lemma getRandomMessage_zero [simp]: "getRandomMessage 0 = Some (cryptoFlirtMessages ! 0)"
  by (simp add: getRandomMessage_def random_element_def cryptoFlirtMessages_def)

lemma length_compose_picked:
  "length (compose_tweet (getRandomMessage r) iso_str) \<le> 102"
proof (cases "getRandomMessage r")
  case None
  then show ?thesis
    using length_timestamp [of iso_str] by (simp add: compose_tweet_def)
next
  case (Some m)
  then have "m \<in> set cryptoFlirtMessages"
    unfolding getRandomMessage_def by (rule random_element_in)
  then have "length m \<le> 80" by (rule pool_bound)
  then show ?thesis
    using Some length_timestamp [of iso_str] by (simp add: compose_tweet_def)
qed

lemma tweets_append [simp]: "tweets (xs @ ys) = tweets xs @ tweets ys"
  by (induction xs rule: tweets.induct) simp_all

lemma timers_append [simp]: "timers (xs @ ys) = timers xs @ timers ys"
  by (induction xs rule: timers.induct) simp_all

lemma timers_post_picked: "timers (post_picked picked iso_str outcome) = [(PostToX, 3600000)]"
  by (simp add: post_picked_def Let_def split: tweet_outcome.split)

lemma last_post_picked: "last (post_picked picked iso_str outcome) = SetTimeout PostToX 3600000"
  by (simp add: post_picked_def Let_def)

lemma tweets_post_picked:
  "tweets (post_picked picked iso_str outcome) =
     (if length (compose_tweet picked iso_str) \<le> 280 then [compose_tweet picked iso_str] else [])"
  by (simp add: post_picked_def Let_def split: tweet_outcome.split)

lemma length_poster_run: "length (poster_run envs) = length envs"
  by (induction envs) (simp_all add: Let_def postToX_def timers_post_picked)

lemma length_long_message [simp]: "length long_message = 300"
  by (simp add: long_message_def)

text \<open>
  C4.  A tick publishes the composed text, as it is, when it has at most 280 code units:
  exactly one publish call.  When the text is longer it makes no publish call.
\<close>

theorem tick_length_gate:
  "tweets (post_picked picked iso_str outcome) =
     (if length (compose_tweet picked iso_str) > 280 then [] else [compose_tweet picked iso_str])
   \<and> tweets (postToX env) =
       (if length (compose_tweet (getRandomMessage (random env)) (iso_now env)) > 280 then []
        else [compose_tweet (getRandomMessage (random env)) (iso_now env)])"
  by (simp add: postToX_def tweets_post_picked)

theorem tick_length_gate_witness:
  "length (compose_tweet (Some long_message) clock_reading) = 322
   \<and> tweets (post_picked (Some long_message) clock_reading TweetOk) = []
   \<and> post_picked (Some long_message) clock_reading TweetOk =
       [LogTooLong (long_message @ ascii '' | 2026-11-02 03:53:07''), SetTimeout PostToX 3600000]
   \<and> length (compose_tweet (Some (ascii ''gm'')) clock_reading) = 24
   \<and> tweets (post_picked (Some (ascii ''gm'')) clock_reading TweetFailed) =
       [ascii ''gm | 2026-11-02 03:53:07'']"
proof -
  have long: "length (compose_tweet (Some long_message) clock_reading) = 322"
    by (simp add: compose_tweet_def)
  have short: "compose_tweet (Some (ascii ''gm'')) clock_reading = ascii ''gm | 2026-11-02 03:53:07''"
    by (simp add: compose_tweet_def ascii_def)
  have skipped: "post_picked (Some long_message) clock_reading TweetOk =
       [LogTooLong (long_message @ ascii '' | 2026-11-02 03:53:07''), SetTimeout PostToX 3600000]"
    using long by (simp add: post_picked_def Let_def) (simp add: compose_tweet_def ascii_def)
  show ?thesis
    using tick_length_gate [of "Some long_message" clock_reading TweetOk first_tick]
      tick_length_gate [of "Some (ascii ''gm'')" clock_reading TweetFailed first_tick]
      long short skipped
    by simp
qed

text \<open>
  C3.  Whatever a tick does (the text is published, the publish call fails, the text is
  too long), it sets exactly one timer, for \<open>postToX\<close>, one hour ahead, as its last
  effect.  So a run of ticks never stops: there is a tick for every environment given.
\<close>

theorem tick_always_reschedules:
  "timers (post_picked picked iso_str outcome) = [(PostToX, 60 * 60 * 1000)]
   \<and> last (post_picked picked iso_str outcome) = SetTimeout PostToX (60 * 60 * 1000)
   \<and> timers (postToX env) = [(PostToX, 60 * 60 * 1000)]
   \<and> last (postToX env) = SetTimeout PostToX (60 * 60 * 1000)
   \<and> length (poster_run envs) = length envs"
  by (simp add: postToX_def timers_post_picked last_post_picked length_poster_run)

theorem tick_always_reschedules_witness:
  "postToX first_tick =
     [Tweet (cryptoFlirtMessages ! 0 @ ascii '' | 2026-11-02 03:53:07''),
      LogPosted (cryptoFlirtMessages ! 0 @ ascii '' | 2026-11-02 03:53:07''),
      SetTimeout PostToX 3600000]
   \<and> postToX failing_tick =
     [Tweet (cryptoFlirtMessages ! 0 @ ascii '' | 2026-11-02 03:53:07''),
      LogError,
      SetTimeout PostToX 3600000]
   \<and> timers (postToX first_tick) = [(PostToX, 3600000)]
   \<and> timers (postToX failing_tick) = [(PostToX, 3600000)]
   \<and> timers (post_picked (Some long_message) clock_reading TweetOk) = [(PostToX, 3600000)]
   \<and> length (poster_run [first_tick, failing_tick, first_tick]) = 3"
proof -
  have len: "length (cryptoFlirtMessages ! 0) = 67"
    by (simp add: cryptoFlirtMessages_def)
  have ok: "postToX first_tick =
     [Tweet (cryptoFlirtMessages ! 0 @ ascii '' | 2026-11-02 03:53:07''),
      LogPosted (cryptoFlirtMessages ! 0 @ ascii '' | 2026-11-02 03:53:07''),
      SetTimeout PostToX 3600000]"
    using len
    by (simp add: postToX_def first_tick_def post_picked_def compose_tweet_def Let_def ascii_append)
  have failed: "postToX failing_tick =
     [Tweet (cryptoFlirtMessages ! 0 @ ascii '' | 2026-11-02 03:53:07''),
      LogError,
      SetTimeout PostToX 3600000]"
    using len
    by (simp add: postToX_def failing_tick_def post_picked_def compose_tweet_def Let_def ascii_append)
  show ?thesis
    using tick_always_reschedules [of "Some long_message" clock_reading TweetOk first_tick
        "[first_tick, failing_tick, first_tick]"]
      tick_always_reschedules [of "Some long_message" clock_reading TweetOk failing_tick "[]"]
      ok failed
    by simp
qed

text \<open>
  C10.  With a message of the pool and any clock reading the composed text has at most 280
  code units (at most 102, in fact), so the tick never takes the branch that skips: every
  tick makes exactly one publish call, with the composed text.
\<close>

theorem pool_tweets_fit:
  "(\<forall>m \<in> set cryptoFlirtMessages. length (compose_tweet (Some m) iso_str) \<le> 280)
   \<and> length (compose_tweet (getRandomMessage r) iso_str) \<le> 280
   \<and> tweets (postToX env) = [compose_tweet (getRandomMessage (random env)) (iso_now env)]"
proof -
  have pool: "length (compose_tweet (Some m) iso_str) \<le> 280" if "m \<in> set cryptoFlirtMessages" for m
    using pool_bound [OF that] length_timestamp [of iso_str] by (simp add: compose_tweet_def)
  have picked: "length (compose_tweet (getRandomMessage q) t) \<le> 280" for q t
    using length_compose_picked [of q t] by linarith
  have "tweets (postToX env) = [compose_tweet (getRandomMessage (random env)) (iso_now env)]"
    using picked [of "random env" "iso_now env"] by (simp add: postToX_def tweets_post_picked)
  with pool picked show ?thesis by blast
qed

theorem pool_tweets_fit_witness:
  "cryptoFlirtMessages ! 2 \<in> set cryptoFlirtMessages
   \<and> length (compose_tweet (Some (cryptoFlirtMessages ! 2)) clock_reading) = 102
   \<and> length (compose_tweet (Some (cryptoFlirtMessages ! 2)) clock_reading) \<le> 280
   \<and> tweets (postToX first_tick) = [cryptoFlirtMessages ! 0 @ ascii '' | 2026-11-02 03:53:07'']"
proof -
  have mem: "cryptoFlirtMessages ! 2 \<in> set cryptoFlirtMessages"
    by (simp add: cryptoFlirtMessages_def)
  have len: "length (compose_tweet (Some (cryptoFlirtMessages ! 2)) clock_reading) = 102"
    by (simp add: compose_tweet_def cryptoFlirtMessages_def)
  have "tweets (postToX first_tick) = [cryptoFlirtMessages ! 0 @ ascii '' | 2026-11-02 03:53:07'']"
    using pool_tweets_fit [of clock_reading 0 first_tick]
    by (simp add: first_tick_def compose_tweet_def ascii_append)
  with mem len show ?thesis
    using pool_tweets_fit [of clock_reading 0 first_tick] by simp
qed

section \<open>Health check and start of the process\<close>

text \<open>
  C8, as the code has it.  The health route sits behind \<open>cors\<close>, \<open>express.json\<close> and the
  rate limiter.  When the first two hand the request on, \<open>GET /health\<close> is answered 200
  with \<open>{ status: "OK" }\<close> while the limiter has counted fewer than ten earlier requests
  of the address in the current window, and by the limiter, with status 429, from then on.
  A middleware that answers the request ends it before the route.  The handler reads
  nothing of the request, of the chat relay or of the poster.
\<close>

theorem health_behind_middleware:
  "get_health None None counted =
     (if counted < limiter_max
      then \<lparr>status = 200, body = JObject [(ascii ''status'', JString (ascii ''OK''))]\<rparr>
      else \<lparr>status = 429,
            body = JString (ascii ''Too many requests, please try again later.'')\<rparr>)
   \<and> get_health None (Some r) counted = r
   \<and> get_health (Some r) json_answer counted = r"
  by (simp add: get_health_def limiter_def health_handler_def too_many_requests_def)

theorem health_behind_middleware_witness:
  "(9::nat) < limiter_max
   \<and> get_health None None 0 =
       \<lparr>status = 200, body = JObject [(ascii ''status'', JString (ascii ''OK''))]\<rparr>
   \<and> get_health None None 9 =
       \<lparr>status = 200, body = JObject [(ascii ''status'', JString (ascii ''OK''))]\<rparr>
   \<and> \<not> (25::nat) < limiter_max
   \<and> get_health None None 25 =
       \<lparr>status = 429, body = JString (ascii ''Too many requests, please try again later.'')\<rparr>
   \<and> get_health None (Some bad_json_answer) 0 = bad_json_answer"
proof -
  have bounds: "(0::nat) < limiter_max" "(9::nat) < limiter_max" "\<not> (25::nat) < limiter_max"
    by (simp_all add: limiter_max_def)
  then show ?thesis
    using health_behind_middleware [of 0 bad_json_answer None]
      health_behind_middleware [of 9 bad_json_answer None]
      health_behind_middleware [of 25 bad_json_answer None]
    by simp
qed

text \<open>
  The claim as stated fails on a request that reaches the limiter after it has counted
  ten of the same address within one window: the limiter answers it, with status 429,
  and the health handler does not run.
\<close>

theorem health_eleventh_request_counterexample:
  "get_health None None 10 = too_many_requests
   \<and> status (get_health None None 10) = 429
   \<and> get_health None None 10 \<noteq>
       \<lparr>status = 200, body = JObject [(ascii ''status'', JString (ascii ''OK''))]\<rparr>"
  by (simp add: get_health_def limiter_def limiter_max_def too_many_requests_def)

text \<open>
  C9.  Without \<open>OPENAI_API_KEY\<close> the run ends with exit code 1 before the chat route is
  installed and before the server listens.  A run that installs the chat route, or that
  listens, has read a key that is not empty, and the route holds that key.
\<close>

theorem startup_needs_credential:
  "(env (ascii ''OPENAI_API_KEY'') = None \<longrightarrow>
      last (startup env) = Exit 1
      \<and> (\<forall>p. Listen p \<notin> set (startup env))
      \<and> (\<forall>k. RoutePostChat k \<notin> set (startup env)))
   \<and> (\<forall>k. RoutePostChat k \<in> set (startup env) \<longrightarrow>
          env (ascii ''OPENAI_API_KEY'') = Some k \<and> k \<noteq> [])
   \<and> (\<forall>p. Listen p \<in> set (startup env) \<longrightarrow>
          (\<exists>k. env (ascii ''OPENAI_API_KEY'') = Some k \<and> k \<noteq> []
               \<and> RoutePostChat k \<in> set (startup env)))"
  by (auto simp: startup_def split: option.splits if_splits)

theorem startup_needs_credential_witness:
  "bare_env (ascii ''OPENAI_API_KEY'') = None
   \<and> startup bare_env =
       [UseCors, UseJson, UseLimiter, RouteGetHealth, RouteGetRoot, LogKeyMissing, Exit 1]
   \<and> last (startup bare_env) = Exit 1
   \<and> RoutePostChat test_key \<in> set (startup keyed_env)
   \<and> keyed_env (ascii ''OPENAI_API_KEY'') = Some test_key
   \<and> test_key \<noteq> []"
proof -
  have absent: "bare_env (ascii ''OPENAI_API_KEY'') = None"
    by (simp add: bare_env_def)
  have trace: "startup bare_env =
       [UseCors, UseJson, UseLimiter, RouteGetHealth, RouteGetRoot, LogKeyMissing, Exit 1]"
    by (simp add: startup_def bare_env_def)
  have route: "RoutePostChat test_key \<in> set (startup keyed_env)"
    by (simp add: startup_def keyed_env_def test_key_def)
  from absent trace route show ?thesis
    using startup_needs_credential [of bare_env] startup_needs_credential [of keyed_env]
    by blast
qed

end
